theory Spec2Isabelle
  imports Main
begin

section \<open>Python values used by the USC-3 client\<close>

text \<open>
  The client \<^verbatim>\<open>Usc3\<close> of \<^verbatim>\<open>pyUSC3.py\<close> talks to a laser-marking controller over a
  serial line. Byte strings and text strings are both lists of \<^typ>\<open>char\<close>; the tag of
  \<open>pyobj\<close> keeps them apart, because Python 3 never takes a \<^verbatim>\<open>bytes\<close> value to be
  equal to a \<^verbatim>\<open>str\<close> value.
\<close>

datatype error =
  IndexError | TypeError | ValueError | AttributeError | UnicodeEncodeError
  | OverflowError | SerialException

datatype pyobj = Bytes string | Str string

text \<open>
  The argument \<^verbatim>\<open>val\<close> of \<^verbatim>\<open>_execute_command\<close>: an integer, a list of integers, or
  a float. Command execution uses \<^verbatim>\<open>val\<close> through \<^verbatim>\<open>str(val)\<close> only, so a float is
  given by the text that \<^verbatim>\<open>str\<close> makes of it.
\<close>

datatype param = IntVal int | ListVal "int list" | FloatVal string

text \<open>
  What a call does: it returns a value, raises, or never returns because the blocking read
  (no timeout is configured) waits for bytes that do not come.
\<close>

datatype 'a outcome = Returns 'a | Raises error | Blocks

subsection \<open>\<^verbatim>\<open>str\<close> of integers and lists\<close>

fun decimal_nat :: "nat \<Rightarrow> string" where
  "decimal_nat n =
     (if n < 10 then [''0123456789'' ! n]
      else decimal_nat (n div 10) @ [''0123456789'' ! (n mod 10)])"

declare decimal_nat.simps [simp del]

definition decimal :: "int \<Rightarrow> string" where
  "decimal i = (if i < 0 then CHR ''-'' # decimal_nat (nat (- i)) else decimal_nat (nat i))"

text \<open>
  \<^verbatim>\<open>str(i)\<close> is the decimal text of \<open>i\<close>, unless \<open>i\<close> has more digits than the
  interpreter converts: \<^verbatim>\<open>sys.get_int_max_str_digits()\<close> is 4300 by default since
  CPython 3.11, and the conversion of a longer integer raises \<^verbatim>\<open>ValueError\<close>. The sign
  does not count. (Earlier interpreters have no limit; integers within the limit are
  converted alike by all of them.)
\<close>

definition int_max_str_digits :: nat where
  "int_max_str_digits = 4300"

definition within_digit_limit :: "int \<Rightarrow> bool" where
  "within_digit_limit i = (length (decimal_nat (nat \<bar>i\<bar>)) \<le> int_max_str_digits)"

definition str_int :: "int \<Rightarrow> error + string" where
  "str_int i = (if within_digit_limit i then Inr (decimal i) else Inl ValueError)"

fun py_join :: "string \<Rightarrow> string list \<Rightarrow> string" where
  "py_join sep [] = []"
| "py_join sep [x] = x"
| "py_join sep (x # y # ys) = x @ sep @ py_join sep (y # ys)"

text \<open>\<^verbatim>\<open>str\<close> of a list converts the elements in order and stops at the first that raises.\<close>

fun str_ints :: "int list \<Rightarrow> error + string list" where
  "str_ints [] = Inr []"
| "str_ints (x # xs) =
     (case str_int x of
        Inl e \<Rightarrow> Inl e
      | Inr t \<Rightarrow> (case str_ints xs of Inl e \<Rightarrow> Inl e | Inr ts \<Rightarrow> Inr (t # ts)))"

definition str_list :: "int list \<Rightarrow> error + string" where
  "str_list xs =
     (case str_ints xs of
        Inl e \<Rightarrow> Inl e
      | Inr ts \<Rightarrow> Inr (''['' @ py_join '', '' ts @ '']''))"

fun py_str :: "param \<Rightarrow> error + string" where
  "py_str (IntVal i) = str_int i"
| "py_str (ListVal xs) = str_list xs"
| "py_str (FloatVal t) = Inr t"

text \<open>The slice \<^verbatim>\<open>s[1:-1]\<close>: from index 1 up to, not including, the last index.\<close>

definition slice_1_m1 :: "string \<Rightarrow> string" where
  "slice_1_m1 s = drop 1 (take (length s - 1) s)"

text \<open>\<^verbatim>\<open>s.replace(',', '')\<close>\<close>

definition replace_comma :: "string \<Rightarrow> string" where
  "replace_comma s = filter (\<lambda>c. c \<noteq> CHR '','') s"

text \<open>\<^verbatim>\<open>bytes(s, 'Ascii')\<close> raises on a character outside ASCII.\<close>

definition bytes_ascii :: "string \<Rightarrow> error + string" where
  "bytes_ascii s =
     (if list_all (\<lambda>c. (of_char c :: nat) < 128) s then Inr s else Inl UnicodeEncodeError)"

section \<open>Class attributes\<close>

definition usc3_trm :: string where
  "usc3_trm = [CHR 0x0D, CHR 0x0A]"

definition usc3_dlm :: string where
  "usc3_dlm = '' ''"

definition usc3_end :: string where
  "usc3_end = [CHR 0x0A]"

definition SCAPS_BAUD_RATE :: nat where
  "SCAPS_BAUD_RATE = 115200"

definition comm_codes :: "(pyobj \<times> string) list" where
  "comm_codes =
    [(Str ''0'', ''Success''),
     (Str ''1'', ''Too many parameters''),
     (Str ''2'', ''Too few parameters''),
     (Str ''3'', ''Unknown command''),
     (Str ''4'', ''Job not valid''),
     (Str ''5'', ''Operation not allowed during marking''),
     (Str ''6'', ''Entity not found''),
     (Str ''7'', ''Not initialized''),
     (Str ''8'', ''Parameter out of range''),
     (Str ''9'', ''Internal error''),
     (Str ''10'', ''Operation not allowed''),
     (Str ''11'', ''The internal queue is full and cannot accept any more commands''),
     (Str ''12'', ''Command not available, probably due to missing Flash license''),
     (Str ''13'', ''Out of memory''),
     (Str ''14'', ''Job already exists''),
     (Str ''15'', ''File not found''),
     (Str ''16'', ''Command removed''),
     (Str ''17'', ''Wrong parameter type''),
     (Str ''18'', ''SN increment must be 0'')]"

section \<open>The serial line and the client object\<close>

text \<open>
  A serial port is the log of the byte strings written to it and the bytes the device
  will still send. \<open>read_until\<close> follows pyserial: it takes one byte at a time until
  the bytes read end with the expected terminator, and blocks when there is no byte left.
\<close>

record serial_port =
  written :: "string list"
  incoming :: string

record usc3 =
  serial_number :: "string option"
  port :: "string option"
  serial :: "serial_port option"

fun read_until :: "string \<Rightarrow> string \<Rightarrow> string \<Rightarrow> (string \<times> string) option" where
  "read_until expected line [] = None"
| "read_until expected line (c # rest) =
     (let line' = line @ [c]
      in if (if expected = [] then line'
             else drop (length line' - length expected) line') = expected
         then Some (line', rest)
         else read_until expected line' rest)"

definition send :: "usc3 \<Rightarrow> string \<Rightarrow> nat outcome \<times> usc3" where
  "send self byte_string =
     (case serial self of
        None \<Rightarrow> (Raises AttributeError, self)
      | Some ser \<Rightarrow>
          (Returns (length byte_string),
           self\<lparr>serial := Some (ser\<lparr>written := written ser @ [byte_string]\<rparr>)\<rparr>))"

definition recv :: "usc3 \<Rightarrow> string outcome \<times> usc3" where
  "recv self =
     (case serial self of
        None \<Rightarrow> (Raises AttributeError, self)
      | Some ser \<Rightarrow>
          (case read_until usc3_end [] (incoming ser) of
             None \<Rightarrow> (Blocks, self\<lparr>serial := Some (ser\<lparr>incoming := []\<rparr>)\<rparr>)
           | Some (line, rest) \<Rightarrow>
               (Returns line, self\<lparr>serial := Some (ser\<lparr>incoming := rest\<rparr>)\<rparr>)))"

section \<open>Command execution\<close>

text \<open>
  The first four lines of \<^verbatim>\<open>_execute_command\<close> build the frame in the variable
  \<^verbatim>\<open>to_write\<close>: the opcode, then for a parameter the delimiter and
  \<^verbatim>\<open>str(val)[1:-1].replace(',', '')\<close> as ASCII bytes, then the terminator.
\<close>

definition to_write :: "string \<Rightarrow> param option \<Rightarrow> error + string" where
  "to_write data val =
     (case val of
        None \<Rightarrow> Inr (data @ usc3_trm)
      | Some v \<Rightarrow>
          (case py_str v of
             Inl e \<Rightarrow> Inl e
           | Inr t \<Rightarrow>
               (case bytes_ascii (replace_comma (slice_1_m1 t)) of
                  Inl e \<Rightarrow> Inl e
                | Inr b \<Rightarrow> Inr (data @ usc3_dlm @ b @ usc3_trm))))"

definition execute_command :: "usc3 \<Rightarrow> string \<Rightarrow> param option \<Rightarrow> pyobj outcome \<times> usc3" where
  "execute_command self data val =
     (case to_write data val of
        Inl e \<Rightarrow> (Raises e, self)
      | Inr frame \<Rightarrow>
          (case send self frame of
             (Raises e, s1) \<Rightarrow> (Raises e, s1)
           | (Blocks, s1) \<Rightarrow> (Blocks, s1)
           | (Returns n, s1) \<Rightarrow>
               (case recv s1 of
                  (Raises e, s2) \<Rightarrow> (Raises e, s2)
                | (Blocks, s2) \<Rightarrow> (Blocks, s2)
                | (Returns response, s2) \<Rightarrow>
                    (case map_of comm_codes (Bytes response) of
                       Some description \<Rightarrow> (Returns (Str description), s2)
                     | None \<Rightarrow> (Returns (Bytes response), s2)))))"

definition run :: "usc3 \<Rightarrow> pyobj outcome \<times> usc3" where
  "run self = execute_command self ''M'' (Some (IntVal 1))"

definition stop :: "usc3 \<Rightarrow> pyobj outcome \<times> usc3" where
  "stop self = execute_command self ''M'' (Some (IntVal 0))"

definition set_home_position :: "usc3 \<Rightarrow> int list \<Rightarrow> pyobj outcome \<times> usc3" where
  "set_home_position self vector = execute_command self ''HP'' (Some (ListVal vector))"

definition set_loop_count :: "usc3 \<Rightarrow> int \<Rightarrow> pyobj outcome \<times> usc3" where
  "set_loop_count self num_loops = execute_command self ''AC'' (Some (IntVal num_loops))"

subsection \<open>Reading the home position\<close>

text \<open>
  \<^verbatim>\<open>x.split(' ')\<close> on a text string cuts at every single space, so two spaces in a
  row give an empty field and the empty string gives one empty field.
\<close>

fun split_sp :: "string \<Rightarrow> string list" where
  "split_sp [] = [] # []"
| "split_sp (c # cs) =
     (if c = CHR '' '' then [] # split_sp cs
      else (case split_sp cs of
              [] \<Rightarrow> [c] # []
            | w # ws \<Rightarrow> (c # w) # ws))"

text \<open>
  \<^verbatim>\<open>int(s)\<close> on a text string of 8-bit characters: white space around the number is
  dropped, one sign may come first, then decimal digits, where single underscores may
  stand between two digits. Anything else raises \<^verbatim>\<open>ValueError\<close>, and so do more digits
  than \<open>int_max_str_digits\<close>. The white space that \<^verbatim>\<open>int\<close> drops is the tabulator, the
  line feed, the vertical tabulator, the form feed, the carriage return and the space,
  and outside ASCII the next-line character and the no-break space; the separators 28
  to 31 are not dropped.
\<close>

definition py_isspace :: "char \<Rightarrow> bool" where
  "py_isspace c =
     (let n = (of_char c :: nat)
      in (9 \<le> n \<and> n \<le> 13) \<or> n = 32 \<or> n = 133 \<or> n = 160)"

definition py_strip :: "string \<Rightarrow> string" where
  "py_strip s = rev (dropWhile py_isspace (rev (dropWhile py_isspace s)))"

definition is_digit :: "char \<Rightarrow> bool" where
  "is_digit c = (let n = (of_char c :: nat) in 48 \<le> n \<and> n \<le> 57)"

definition digit_val :: "char \<Rightarrow> nat" where
  "digit_val c = of_char c - 48"

fun digits_ok :: "bool \<Rightarrow> string \<Rightarrow> bool" where
  "digits_ok prev [] = prev"
| "digits_ok prev (c # cs) =
     (if is_digit c then digits_ok True cs
      else (c = CHR ''_'' \<and> prev \<and> digits_ok False cs))"

definition digits_value :: "string \<Rightarrow> nat" where
  "digits_value ds = foldl (\<lambda>acc c. 10 * acc + digit_val c) 0 (filter is_digit ds)"

definition py_int :: "string \<Rightarrow> error + int" where
  "py_int s =
     (let t = py_strip s;
          neg = (t \<noteq> [] \<and> hd t = CHR ''-'');
          ds = (if t \<noteq> [] \<and> (hd t = CHR ''-'' \<or> hd t = CHR ''+'') then tl t else t)
      in if digits_ok False ds \<and> length (filter is_digit ds) \<le> int_max_str_digits
         then Inr (if neg then - int (digits_value ds) else int (digits_value ds))
         else Inl ValueError)"

text \<open>The comprehension \<^verbatim>\<open>[int(n) for n in fields]\<close> stops at the first field that raises.\<close>

fun py_ints :: "string list \<Rightarrow> error + int list" where
  "py_ints [] = Inr []"
| "py_ints (n # ns) =
     (case py_int n of
        Inl e \<Rightarrow> Inl e
      | Inr i \<Rightarrow> (case py_ints ns of Inl e \<Rightarrow> Inl e | Inr is \<Rightarrow> Inr (i # is)))"

text \<open>
  \<^verbatim>\<open>get_home_position\<close> calls \<^verbatim>\<open>.split(' ')\<close> with a text separator on what
  \<^verbatim>\<open>_execute_command\<close> returned. On a \<^verbatim>\<open>bytes\<close> value that call raises
  \<^verbatim>\<open>TypeError\<close>; on a text value it splits.
\<close>

definition get_home_position :: "usc3 \<Rightarrow> int list outcome \<times> usc3" where
  "get_home_position self =
     (case execute_command self ''HP'' None of
        (Raises e, s1) \<Rightarrow> (Raises e, s1)
      | (Blocks, s1) \<Rightarrow> (Blocks, s1)
      | (Returns (Bytes b), s1) \<Rightarrow> (Raises TypeError, s1)
      | (Returns (Str t), s1) \<Rightarrow>
          (case py_ints (split_sp t) of
             Inl e \<Rightarrow> (Raises e, s1)
           | Inr v \<Rightarrow> (Returns v, s1)))"

section \<open>Bit packing\<close>

text \<open>
  \<^verbatim>\<open>2**(pin-1)\<close> is an integer for \<open>pin \<ge> 1\<close> and a float below. The arithmetic of
  floats belongs to the interpreter and is a parameter here: the float \<^verbatim>\<open>2**e\<close> for a
  negative \<open>e\<close> (or \<^verbatim>\<open>OverflowError\<close> when \<open>e\<close> is too large for a float), what
  \<^verbatim>\<open>sum\<close> makes of a list of numbers that has a float in it (a float, or
  \<^verbatim>\<open>OverflowError\<close> when an integer of the list is too large for a float), and the
  text of a float. What holds for every such parameter holds for the interpreter's
  floats.
\<close>

datatype 'f number = PyInt int | PyFloat 'f

record 'f float_ops =
  float_pow2 :: "int \<Rightarrow> error + 'f"
  float_sum :: "'f number list \<Rightarrow> error + 'f"
  float_str :: "'f \<Rightarrow> string"

definition pow2 :: "'f float_ops \<Rightarrow> int \<Rightarrow> error + 'f number" where
  "pow2 fl e =
     (if 0 \<le> e then Inr (PyInt (2 ^ nat e))
      else (case float_pow2 fl e of Inl err \<Rightarrow> Inl err | Inr x \<Rightarrow> Inr (PyFloat x)))"

text \<open>The comprehension \<^verbatim>\<open>[2**(pin-1) for pin in output_list]\<close>, built before the sum.\<close>

fun powers :: "'f float_ops \<Rightarrow> int list \<Rightarrow> error + 'f number list" where
  "powers fl [] = Inr []"
| "powers fl (pin # output_list) =
     (case pow2 fl (pin - 1) of
        Inl e \<Rightarrow> Inl e
      | Inr b \<Rightarrow> (case powers fl output_list of Inl e \<Rightarrow> Inl e | Inr bs \<Rightarrow> Inr (b # bs)))"

fun int_of :: "'f number \<Rightarrow> int option" where
  "int_of (PyInt i) = Some i"
| "int_of (PyFloat x) = None"

text \<open>\<^verbatim>\<open>sum(xs)\<close>: the exact sum when every number is an integer.\<close>

definition py_sum :: "'f float_ops \<Rightarrow> 'f number list \<Rightarrow> error + 'f number" where
  "py_sum fl xs =
     (case those (map int_of xs) of
        Some is \<Rightarrow> Inr (PyInt (sum_list is))
      | None \<Rightarrow> (case float_sum fl xs of Inl e \<Rightarrow> Inl e | Inr x \<Rightarrow> Inr (PyFloat x)))"

definition output_mask :: "'f float_ops \<Rightarrow> int list \<Rightarrow> error + 'f number" where
  "output_mask fl output_list =
     (case powers fl output_list of Inl e \<Rightarrow> Inl e | Inr bs \<Rightarrow> py_sum fl bs)"

definition set_pulse ::
    "'f float_ops \<Rightarrow> usc3 \<Rightarrow> int list \<Rightarrow> int \<Rightarrow> pyobj outcome \<times> usc3" where
  "set_pulse fl self output_list pulse_width =
     (case output_mask fl output_list of
        Inl e \<Rightarrow> (Raises e, self)
      | Inr (PyInt pins) \<Rightarrow> execute_command self ''LPJ'' (Some (IntVal pins))
      | Inr (PyFloat pins) \<Rightarrow>
          execute_command self ''LPJ'' (Some (FloatVal (float_str fl pins))))"

definition set_laser_disable_flag :: "usc3 \<Rightarrow> int \<Rightarrow> int \<Rightarrow> pyobj outcome \<times> usc3" where
  "set_laser_disable_flag self input_pin trigger_mode =
     execute_command self ''FLAGS'' (Some (IntVal (input_pin + trigger_mode)))"

section \<open>Device discovery and connection\<close>

text \<open>
  The host is what the client sees of the machine: the ports that enumeration lists,
  the bytes a device behind a port will send, the ports that cannot be opened (absent,
  busy or forbidden), the log of the attempts to open a port and the lines printed.
\<close>

record list_port_info =
  device :: string
  vid :: "int option"
  info_serial_number :: "string option"

record device_entry =
  PORT :: string
  VID :: "int option"
  SN :: "string option"

record host =
  comports :: "list_port_info list"
  pending :: "string \<Rightarrow> string"
  unavailable :: "string list"
  opened :: "(string \<times> nat) list"
  printed :: "string list"

text \<open>
  \<^verbatim>\<open>_port_seek\<close>: every enumerated port becomes a dictionary with the keys \<^verbatim>\<open>PORT\<close>,
  \<^verbatim>\<open>VID\<close> and \<^verbatim>\<open>SN\<close>; the list is filtered by vendor id when the client has no
  serial number and by serial number otherwise; \<^verbatim>\<open>port_list[-1]\<close> is returned, which
  raises \<^verbatim>\<open>IndexError\<close> on the empty list.
\<close>

definition port_seek :: "usc3 \<Rightarrow> host \<Rightarrow> error + string" where
  "port_seek self h =
     (let devices = map (\<lambda>p. \<lparr>PORT = device p, VID = vid p, SN = info_serial_number p\<rparr>)
                      (comports h);
          port_list =
            (case serial_number self of
               None \<Rightarrow> map PORT (filter (\<lambda>d. VID d = Some 0x2341) devices)
             | Some sn \<Rightarrow> map PORT (filter (\<lambda>d. SN d = Some sn) devices))
      in if port_list = [] then Inl IndexError else Inr (last port_list))"

text \<open>\<^verbatim>\<open>serial.Serial(port, baudrate)\<close> raises \<^verbatim>\<open>SerialException\<close> when it cannot open the port.\<close>

definition serial_Serial :: "host \<Rightarrow> string \<Rightarrow> nat \<Rightarrow> (error + serial_port) \<times> host" where
  "serial_Serial h p baudrate =
     (if p \<in> set (unavailable h) then Inl SerialException
      else Inr \<lparr>written = [], incoming = pending h p\<rparr>,
      h\<lparr>opened := opened h @ [(p, baudrate)]\<rparr>)"

definition connect :: "usc3 \<Rightarrow> host \<Rightarrow> serial_port option outcome \<times> usc3 \<times> host" where
  "connect self h =
     (case port_seek self h of
        Inl e \<Rightarrow> (Raises e, self, h)
      | Inr usc3_port \<Rightarrow>
          if length usc3_port = 0
          then (Returns None, self,
                h\<lparr>printed := printed h @ [''USC-3 Laser Control Device Not Found.'']\<rparr>)
          else (let self' = self\<lparr>port := Some usc3_port\<rparr>
                in case serial_Serial h usc3_port SCAPS_BAUD_RATE of
                     (Inl e, h') \<Rightarrow> (Raises e, self', h')
                   | (Inr usc3_serial, h') \<Rightarrow> (Returns (Some usc3_serial), self', h')))"

text \<open>The constructor: discovery when no port is given, the given port otherwise.\<close>

definition init :: "string option \<Rightarrow> string option \<Rightarrow> host \<Rightarrow> usc3 outcome \<times> host" where
  "init sn explicit_port h =
     (let self = \<lparr>serial_number = sn, port = explicit_port, serial = None\<rparr>
      in case explicit_port of
           None \<Rightarrow>
             (case connect self h of
                (Raises e, self', h') \<Rightarrow> (Raises e, h')
              | (Blocks, self', h') \<Rightarrow> (Blocks, h')
              | (Returns ser, self', h') \<Rightarrow> (Returns (self'\<lparr>serial := ser\<rparr>), h'))
         | Some p \<Rightarrow>
             (case serial_Serial h p SCAPS_BAUD_RATE of
                (Inl e, h') \<Rightarrow> (Raises e, h')
              | (Inr ser, h') \<Rightarrow> (Returns (self\<lparr>serial := Some ser\<rparr>), h')))"

section \<open>Observations and notions of the specification\<close>

text \<open>The byte strings a client has written to its serial line so far, oldest first.\<close>

definition transmitted :: "usc3 \<Rightarrow> string list" where
  "transmitted self = (case serial self of None \<Rightarrow> [] | Some ser \<Rightarrow> written ser)"

text \<open>
  The payload of a frame, in the words of the specification: what stands between the
  opcode with its delimiter and the terminator.
\<close>

definition frame_payload :: "string \<Rightarrow> string \<Rightarrow> string" where
  "frame_payload data frame =
     take (length frame - length data - length usc3_dlm - length usc3_trm)
       (drop (length data + length usc3_dlm) frame)"

text \<open>
  The filter of the specification on enumerated ports: the exact serial number when the
  client has one, the fixed vendor id otherwise; and the filtered list in enumeration
  order.
\<close>

definition spec_matches :: "usc3 \<Rightarrow> list_port_info \<Rightarrow> bool" where
  "spec_matches self p =
     (case serial_number self of
        None \<Rightarrow> vid p = Some 0x2341
      | Some sn \<Rightarrow> info_serial_number p = Some sn)"

definition spec_filtered :: "usc3 \<Rightarrow> host \<Rightarrow> list_port_info list" where
  "spec_filtered self h = filter (spec_matches self) (comports h)"

text \<open>Characters that are decimal digits or the minus sign.\<close>

definition plain :: "string \<Rightarrow> bool" where
  "plain s = list_all (\<lambda>c. is_digit c \<or> c = CHR ''-'') s"

subsection \<open>Concrete clients and hosts\<close>

definition fresh_port :: "string \<Rightarrow> serial_port" where
  "fresh_port reply = \<lparr>written = [], incoming = reply\<rparr>"

definition client_on :: "serial_port \<Rightarrow> usc3" where
  "client_on ser = \<lparr>serial_number = None, port = Some ''COM3'', serial = Some ser\<rparr>"

definition unconnected :: "string option \<Rightarrow> usc3" where
  "unconnected sn = \<lparr>serial_number = sn, port = None, serial = None\<rparr>"

definition empty_host :: host where
  "empty_host = \<lparr>comports = [], pending = (\<lambda>p. []), unavailable = [], opened = [], printed = []\<rparr>"

definition three_port_host :: host where
  "three_port_host =
     \<lparr>comports =
        [\<lparr>device = ''COM3'', vid = Some 0x2341, info_serial_number = Some ''A1''\<rparr>,
         \<lparr>device = ''COM4'', vid = Some 0x2341, info_serial_number = Some ''a1''\<rparr>,
         \<lparr>device = ''COM5'', vid = Some 0x0403, info_serial_number = Some ''A1''\<rparr>],
      pending = (\<lambda>p. []), unavailable = [], opened = [], printed = []\<rparr>"

section \<open>Supporting lemmas\<close>

subsection \<open>Decimal text of integers\<close>

lemma digit_char_nth:
  assumes "n < 10"
  shows "is_digit (''0123456789'' ! n) \<and> digit_val (''0123456789'' ! n) = n"
proof -
  from assms have "n \<in> {0, 1, 2, 3, 4, 5, 6, 7, 8, 9}" by auto
  then show ?thesis by (auto simp: is_digit_def digit_val_def)
qed

lemma decimal_nat_all_digits: "list_all is_digit (decimal_nat n)"
proof (induction n rule: decimal_nat.induct)
  case (1 n)
  show ?case
  proof (cases "n < 10")
    case True
    then show ?thesis by (subst decimal_nat.simps) (simp add: digit_char_nth)
  next
    case False
    with 1 show ?thesis by (subst decimal_nat.simps) (simp add: digit_char_nth)
  qed
qed

lemma decimal_nat_nonempty: "decimal_nat n \<noteq> []"
  by (subst decimal_nat.simps) simp

lemma digits_value_snoc:
  "is_digit c \<Longrightarrow> digits_value (ds @ [c]) = 10 * digits_value ds + digit_val c"
  by (simp add: digits_value_def)

lemma digits_value_decimal_nat: "digits_value (decimal_nat n) = n"
proof (induction n rule: decimal_nat.induct)
  case (1 n)
  show ?case
  proof (cases "n < 10")
    case True
    then show ?thesis
      by (subst decimal_nat.simps) (simp add: digits_value_def digit_char_nth)
  next
    case False
    then have "digits_value (decimal_nat (n div 10)) = n div 10" using 1 by simp
    with False show ?thesis
      by (subst decimal_nat.simps) (simp add: digits_value_snoc digit_char_nth)
  qed
qed

lemma digits_ok_all_digits: "list_all is_digit ds \<Longrightarrow> digits_ok p ds = (p \<or> ds \<noteq> [])"
  by (induction ds arbitrary: p) auto

lemma py_strip_id:
  assumes "s \<noteq> []" "\<not> py_isspace (hd s)" "\<not> py_isspace (last s)"
  shows "py_strip s = s"
proof -
  from assms have a: "dropWhile py_isspace s = s" by (cases s) auto
  from assms have "dropWhile py_isspace (rev s) = rev s"
    by (cases "rev s") (auto simp: last_rev hd_rev)
  with a show ?thesis by (simp add: py_strip_def)
qed

lemma is_digit_not_space: "is_digit c \<Longrightarrow> \<not> py_isspace c"
  by (auto simp: is_digit_def py_isspace_def Let_def)

lemma is_digit_not_sign: "is_digit c \<Longrightarrow> c \<noteq> CHR ''-'' \<and> c \<noteq> CHR ''+''"
  by (auto simp: is_digit_def)

lemma filter_all_digits: "list_all is_digit ds \<Longrightarrow> filter is_digit ds = ds"
  by (simp add: list_all_iff)

lemma py_int_decimal_nat:
  assumes lim: "length (decimal_nat n) \<le> int_max_str_digits"
  shows "py_int (decimal_nat n) = Inr (int n)"
proof -
  let ?s = "decimal_nat n"
  have ne: "?s \<noteq> []" by (rule decimal_nat_nonempty)
  have ad: "list_all is_digit ?s" by (rule decimal_nat_all_digits)
  from ne ad have h: "is_digit (hd ?s)" by (cases ?s) auto
  from ne ad have l: "is_digit (last ?s)" by (simp add: list_all_iff)
  have st: "py_strip ?s = ?s"
    using ne h l by (intro py_strip_id) (auto dest: is_digit_not_space)
  show ?thesis
    using ne h ad is_digit_not_sign[OF h] lim
    by (simp add: py_int_def st Let_def digits_ok_all_digits digits_value_decimal_nat
        filter_all_digits)
qed

lemma py_int_minus_decimal_nat:
  assumes lim: "length (decimal_nat n) \<le> int_max_str_digits"
  shows "py_int (CHR ''-'' # decimal_nat n) = Inr (- int n)"
proof -
  let ?s = "decimal_nat n"
  have ne: "?s \<noteq> []" by (rule decimal_nat_nonempty)
  have ad: "list_all is_digit ?s" by (rule decimal_nat_all_digits)
  from ne ad have l: "is_digit (last ?s)" by (simp add: list_all_iff)
  have st: "py_strip (CHR ''-'' # ?s) = CHR ''-'' # ?s"
    using ne l by (intro py_strip_id) (auto dest: is_digit_not_space simp: py_isspace_def)
  show ?thesis
    using ne ad lim
    by (simp add: py_int_def st Let_def digits_ok_all_digits digits_value_decimal_nat
        filter_all_digits)
qed

lemma py_int_decimal:
  assumes "within_digit_limit i"
  shows "py_int (decimal i) = Inr i"
proof (cases "i < 0")
  case True
  then have "nat \<bar>i\<bar> = nat (- i)" by simp
  with assms have "length (decimal_nat (nat (- i))) \<le> int_max_str_digits"
    by (simp add: within_digit_limit_def)
  from py_int_minus_decimal_nat[OF this] True show ?thesis by (simp add: decimal_def)
next
  case False
  then have "nat \<bar>i\<bar> = nat i" by simp
  with assms have "length (decimal_nat (nat i)) \<le> int_max_str_digits"
    by (simp add: within_digit_limit_def)
  from py_int_decimal_nat[OF this] False show ?thesis by (simp add: decimal_def)
qed

lemma py_ints_decimal: "list_all within_digit_limit v \<Longrightarrow> py_ints (map decimal v) = Inr v"
  by (induction v) (simp_all add: py_int_decimal)

lemma str_ints_decimal: "list_all within_digit_limit v \<Longrightarrow> str_ints v = Inr (map decimal v)"
  by (induction v) (simp_all add: str_int_def)

text \<open>The digit limit as a bound on the magnitude.\<close>

lemma length_decimal_nat_le:
  "0 < k \<Longrightarrow> (length (decimal_nat n) \<le> k) = (n < 10 ^ k)"
proof (induction n arbitrary: k rule: decimal_nat.induct)
  case (1 n)
  show ?case
  proof (cases "n < 10")
    case True
    have "(10::nat) ^ 1 \<le> 10 ^ k" using 1(2) by (intro power_increasing) simp_all
    with True have "n < 10 ^ k" by simp
    with True 1(2) show ?thesis by (subst decimal_nat.simps) simp
  next
    case False
    show ?thesis
    proof (cases "k = 1")
      case True
      with False show ?thesis
        using decimal_nat_nonempty[of "n div 10"]
        by (subst decimal_nat.simps) (simp add: Suc_le_eq)
    next
      case k: False
      with 1(2) obtain j where j: "k = Suc j" "0 < j" by (cases k) auto
      from 1(1)[OF False j(2)]
      have "(length (decimal_nat (n div 10)) \<le> j) = (n div 10 < 10 ^ j)" .
      moreover have "(n div 10 < 10 ^ j) = (n < 10 ^ Suc j)"
        by (simp add: div_less_iff_less_mult mult.commute)
      ultimately show ?thesis using False j(1)
        by (subst decimal_nat.simps) simp
    qed
  qed
qed

lemma int_max_str_digits_pos: "0 < int_max_str_digits"
  by (simp add: int_max_str_digits_def)

lemma within_digit_limit_iff:
  "within_digit_limit i = (\<bar>i\<bar> < 10 ^ int_max_str_digits)"
proof -
  have "within_digit_limit i = (nat \<bar>i\<bar> < 10 ^ int_max_str_digits)"
    unfolding within_digit_limit_def by (rule length_decimal_nat_le[OF int_max_str_digits_pos])
  also have "\<dots> = (int (nat \<bar>i\<bar>) < int (10 ^ int_max_str_digits))"
    by (simp only: of_nat_less_iff)
  also have "\<dots> = (\<bar>i\<bar> < 10 ^ int_max_str_digits)"
    by (simp only: of_nat_power of_nat_numeral int_nat_eq abs_ge_zero if_True)
  finally show ?thesis .
qed

lemma str_int_too_long: "str_int (10 ^ int_max_str_digits) = Inl ValueError"
proof -
  have "\<bar>10 ^ int_max_str_digits\<bar> = (10::int) ^ int_max_str_digits"
    by (simp only: power_abs abs_numeral)
  then have "\<not> within_digit_limit (10 ^ int_max_str_digits)"
    by (simp only: within_digit_limit_iff less_irrefl not_False_eq_True)
  then show ?thesis by (simp only: str_int_def if_False)
qed

lemma plain_decimal: "plain (decimal i)"
  using decimal_nat_all_digits[of "nat i"] decimal_nat_all_digits[of "nat (- i)"]
  by (auto simp: plain_def decimal_def list_all_iff)

lemma plain_chars:
  "plain s \<Longrightarrow> c \<in> set s \<Longrightarrow>
     c \<noteq> CHR '' '' \<and> c \<noteq> CHR '','' \<and> c \<noteq> CHR ''['' \<and> c \<noteq> CHR '']'' \<and> (of_char c :: nat) < 128"
  by (auto simp: plain_def list_all_iff is_digit_def Let_def)

subsection \<open>Frames of list parameters\<close>

lemma slice_brackets: "slice_1_m1 (CHR ''['' # b @ '']'') = b"
  by (simp add: slice_1_m1_def)

lemma replace_comma_plain: "plain s \<Longrightarrow> replace_comma s = s"
  unfolding replace_comma_def by (rule filter_True) (auto dest: plain_chars)

lemma replace_comma_join:
  "list_all plain ss \<Longrightarrow> replace_comma (py_join '', '' ss) = py_join '' '' ss"
proof (induction "'', ''" ss rule: py_join.induct)
  case 1
  show ?case by (simp add: replace_comma_def)
next
  case (2 x)
  then show ?case by (simp add: replace_comma_plain)
next
  case (3 x y ys)
  then have "replace_comma (py_join '', '' (y # ys)) = py_join '' '' (y # ys)" by simp
  moreover from 3 have "replace_comma x = x" by (simp add: replace_comma_plain)
  ultimately show ?case by (simp add: replace_comma_def)
qed

lemma join_chars:
  "list_all plain ss \<Longrightarrow> c \<in> set (py_join '' '' ss) \<Longrightarrow>
     c \<noteq> CHR '','' \<and> c \<noteq> CHR ''['' \<and> c \<noteq> CHR '']'' \<and> (of_char c :: nat) < 128"
proof (induction "'' ''" ss rule: py_join.induct)
  case 1
  then show ?case by simp
next
  case (2 x)
  then show ?case using plain_chars[of x c] by simp
next
  case (3 x y ys)
  then show ?case using plain_chars[of x c] by auto
qed

lemma bytes_ascii_join:
  assumes "list_all plain ss"
  shows "bytes_ascii (py_join '' '' ss) = Inr (py_join '' '' ss)"
proof -
  have "\<forall>c\<in>set (py_join '' '' ss). (of_char c :: nat) < 128"
    using join_chars[OF assms] by blast
  then show ?thesis by (simp add: bytes_ascii_def list_all_iff)
qed

lemma to_write_list:
  assumes "list_all within_digit_limit v"
  shows "to_write data (Some (ListVal v)) =
     Inr (data @ usc3_dlm @ py_join '' '' (map decimal v) @ usc3_trm)"
proof -
  have p: "list_all plain (map decimal v)"
    by (simp add: list_all_iff plain_decimal)
  show ?thesis
    by (simp add: to_write_def str_list_def str_ints_decimal[OF assms] slice_brackets
        replace_comma_join[OF p] bytes_ascii_join[OF p])
qed

lemma to_write_list_too_long:
  "to_write data (Some (ListVal [10 ^ int_max_str_digits])) = Inl ValueError"
  by (simp only: to_write_def option.case py_str.simps str_list_def str_ints.simps
      str_int_too_long sum.case)

text \<open>
  A scalar parameter goes through the same slice: its token is the decimal text without
  its first and its last character.
\<close>

lemma plain_slice:
  assumes "plain s"
  shows "plain (slice_1_m1 s)"
proof -
  have "set (slice_1_m1 s) \<subseteq> set s"
    unfolding slice_1_m1_def by (meson set_drop_subset set_take_subset subset_trans)
  with assms show ?thesis by (auto simp: plain_def list_all_iff)
qed

lemma bytes_ascii_plain:
  assumes "plain s"
  shows "bytes_ascii s = Inr s"
proof -
  have "\<forall>c\<in>set s. (of_char c :: nat) < 128" using plain_chars[OF assms] by blast
  then show ?thesis by (simp add: bytes_ascii_def list_all_iff)
qed

lemma to_write_scalar:
  "to_write data (Some (IntVal i)) =
     (if within_digit_limit i
      then Inr (data @ usc3_dlm @ slice_1_m1 (decimal i) @ usc3_trm)
      else Inl ValueError)"
proof -
  have p: "plain (slice_1_m1 (decimal i))" by (rule plain_slice[OF plain_decimal])
  show ?thesis
    by (simp add: to_write_def str_int_def replace_comma_plain[OF p] bytes_ascii_plain[OF p])
qed

text \<open>Below 100 the decimal text has at most two characters, and the slice leaves none.\<close>

lemma decimal_nat_short:
  assumes "n < 100"
  shows "length (decimal_nat n) \<le> 2"
proof (cases "n < 10")
  case True
  then show ?thesis by (subst decimal_nat.simps) simp
next
  case False
  from assms have "n div 10 < 10" by simp
  then have "length (decimal_nat (n div 10)) = 1" by (subst decimal_nat.simps) simp
  with False show ?thesis by (subst decimal_nat.simps) simp
qed

lemma slice_short: "length s \<le> 2 \<Longrightarrow> slice_1_m1 s = []"
  by (simp add: slice_1_m1_def)

lemma to_write_small_scalar:
  assumes "0 \<le> i" and "i < 100"
  shows "to_write data (Some (IntVal i)) = Inr (data @ usc3_dlm @ usc3_trm)"
proof -
  from assms have n: "nat i < 100" by simp
  from assms have a: "nat \<bar>i\<bar> = nat i" by simp
  have l: "length (decimal_nat (nat i)) \<le> 2" by (rule decimal_nat_short[OF n])
  then have w: "within_digit_limit i"
    by (simp add: within_digit_limit_def a int_max_str_digits_def)
  from assms l have "slice_1_m1 (decimal i) = []"
    by (simp add: decimal_def slice_short)
  with w show ?thesis by (simp add: to_write_scalar)
qed

lemma frame_payload_frame: "frame_payload data (data @ usc3_dlm @ b @ usc3_trm) = b"
  by (simp add: frame_payload_def usc3_dlm_def usc3_trm_def)

lemma split_sp_plain: "plain s \<Longrightarrow> split_sp s = [s]"
proof (induction s)
  case Nil
  show ?case by simp
next
  case (Cons c s)
  then have "c \<noteq> CHR '' ''" "plain s"
    by (auto simp: plain_def is_digit_def)
  with Cons show ?case by simp
qed

lemma split_sp_plain_sp: "plain s \<Longrightarrow> split_sp (s @ CHR '' '' # r) = s # split_sp r"
proof (induction s)
  case Nil
  show ?case by simp
next
  case (Cons c s)
  then have "c \<noteq> CHR '' ''" "plain s"
    by (auto simp: plain_def is_digit_def)
  with Cons show ?case by simp
qed

lemma split_sp_join:
  "list_all plain ss \<Longrightarrow> ss \<noteq> [] \<Longrightarrow> split_sp (py_join '' '' ss) = ss"
proof (induction "'' ''" ss rule: py_join.induct)
  case 1
  then show ?case by simp
next
  case (2 x)
  then show ?case by (simp add: split_sp_plain)
next
  case (3 x y ys)
  then show ?case by (simp add: split_sp_plain_sp)
qed

subsection \<open>What a command returns and writes\<close>

lemma map_of_comm_codes_Bytes: "map_of comm_codes (Bytes b) = None"
  by (simp add: comm_codes_def)

lemma execute_command_transmitted:
  "to_write data val = Inr frame \<Longrightarrow> serial self = Some ser \<Longrightarrow>
   transmitted (snd (execute_command self data val)) = written ser @ [frame]"
  by (auto simp: execute_command_def send_def recv_def transmitted_def map_of_comm_codes_Bytes
      split: option.splits prod.splits outcome.splits)

text \<open>
  The status table has text keys and the response is a byte string, so the lookup never
  succeeds: no call of \<open>execute_command\<close> returns a text value, and therefore
  \<open>get_home_position\<close> never returns a vector.
\<close>

lemma execute_command_never_text: "fst (execute_command self data val) \<noteq> Returns (Str t)"
  by (auto simp: execute_command_def send_def recv_def map_of_comm_codes_Bytes
      split: sum.splits option.splits prod.splits outcome.splits)

lemma get_home_position_never_returns: "fst (get_home_position self) \<noteq> Returns v"
proof -
  obtain r s where e: "execute_command self ''HP'' None = (r, s)"
    by (cases "execute_command self ''HP'' None")
  with execute_command_never_text[of self "''HP''" None] have "\<And>t. r \<noteq> Returns (Str t)"
    by simp
  with e show ?thesis
    by (auto simp: get_home_position_def split: outcome.splits pyobj.splits)
qed

text \<open>
  For every pin from 2 to 15 and both trigger modes the frame of the laser-disable setter
  is the same: the word has at most two digits and the slice removes them.
\<close>

lemma flags_frame_constant:
  assumes "2 \<le> p" "p \<le> 15" "t = 0x00 \<or> t = 0x10"
  shows "transmitted (snd (set_laser_disable_flag (self\<lparr>serial := Some ser\<rparr>) p t))
           = written ser @ [''FLAGS '' @ usc3_trm]"
proof -
  from assms have "0 \<le> p + t" "p + t < 100" by auto
  then have "to_write ''FLAGS'' (Some (IntVal (p + t))) = Inr (''FLAGS'' @ usc3_dlm @ usc3_trm)"
    by (rule to_write_small_scalar)
  then have "to_write ''FLAGS'' (Some (IntVal (p + t))) = Inr (''FLAGS '' @ usc3_trm)"
    by (simp add: usc3_dlm_def)
  then show ?thesis
    unfolding set_laser_disable_flag_def by (rule execute_command_transmitted) simp
qed

subsection \<open>Discovery\<close>

lemma port_seek_filtered:
  "port_seek self h =
     (if spec_filtered self h = [] then Inl IndexError
      else Inr (device (last (spec_filtered self h))))"
proof -
  have m: "spec_matches self =
      (\<lambda>p. case serial_number self of
             None \<Rightarrow> vid p = Some 0x2341
           | Some sn \<Rightarrow> info_serial_number p = Some sn)"
    by (rule ext) (simp add: spec_matches_def)
  show ?thesis
    by (cases "serial_number self")
       (simp_all add: port_seek_def Let_def spec_filtered_def m filter_map comp_def last_map)
qed

lemma connect_no_match_raises:
  "spec_filtered self h = [] \<Longrightarrow> connect self h = (Raises IndexError, self, h)"
  by (simp add: connect_def port_seek_filtered)

subsection \<open>The output mask\<close>

lemma powers_ints:
  "list_all (\<lambda>p. 1 \<le> p) S \<Longrightarrow> powers fl S = Inr (map (\<lambda>p. PyInt (2 ^ nat (p - 1))) S)"
  by (induction S) (simp_all add: pow2_def)

lemma those_Some: "those (map (\<lambda>p. Some (f p)) S) = Some (map f S)"
  by (induction S) simp_all

lemma output_mask_sum_list:
  "list_all (\<lambda>p. 1 \<le> p) S \<Longrightarrow>
     output_mask fl S = Inr (PyInt (sum_list (map (\<lambda>p. 2 ^ nat (p - 1)) S)))"
  by (simp add: output_mask_def powers_ints py_sum_def comp_def those_Some)

text \<open>
  With a pin below 1 the mask is a float, and the frame carries the text of that float
  without its first and last character: with the interpreter's text \<^verbatim>\<open>0.5\<close> for the
  mask of the pin list \<open>[0]\<close> the token is a single dot.
\<close>

lemma set_pulse_float_frame:
  assumes "float_pow2 fl (- 1) = Inr h"
    and "float_sum fl [PyFloat h] = Inr x"
    and "float_str fl x = ''0.5''"
  shows "set_pulse fl self [0] w = execute_command self ''LPJ'' (Some (FloatVal ''0.5''))"
    and "to_write ''LPJ'' (Some (FloatVal ''0.5'')) = Inr (''LPJ .'' @ usc3_trm)"
proof -
  show "set_pulse fl self [0] w = execute_command self ''LPJ'' (Some (FloatVal ''0.5''))"
    using assms by (simp add: set_pulse_def output_mask_def py_sum_def pow2_def)
  show "to_write ''LPJ'' (Some (FloatVal ''0.5'')) = Inr (''LPJ .'' @ usc3_trm)"
    by code_simp
qed

section \<open>The claims\<close>

text \<open>
  Claim C1. The claim: for every opcode and every scalar integer parameter \<open>p\<close>, the
  frame is the opcode, one space, the decimal text of \<open>p\<close> and CRLF. The code slices
  \<^verbatim>\<open>str(val)[1:-1]\<close> for scalars as it does for lists, which drops the first and the last
  character of the decimal text: \<^verbatim>\<open>set_loop_count(50)\<close> writes \<^verbatim>\<open>AC\<close>, a space and
  CRLF, not \<^verbatim>\<open>AC 50\<close> and CRLF.
\<close>

theorem scalar_frame_loses_digits:
  "to_write ''AC'' (Some (IntVal 50)) = Inr (''AC '' @ usc3_trm)
   \<and> to_write ''AC'' (Some (IntVal 50)) \<noteq> Inr (''AC 50'' @ usc3_trm)
   \<and> transmitted (snd (set_loop_count (client_on (fresh_port (''0'' @ usc3_end))) 50))
       = [''AC '' @ usc3_trm]"
  by code_simp

text \<open>
  Claim C2. The claim: a response whose token is one of the status codes \<open>0\<close> to
  \<open>18\<close> is returned as its description from the status table. The code looks the
  received bytes, terminator included, up in a table with text keys, which never
  succeeds: on the reply \<^verbatim>\<open>0\<close> and LF the call returns these raw bytes, not
  \<^verbatim>\<open>Success\<close>.
\<close>

theorem status_reply_returned_raw:
  "execute_command (client_on (fresh_port (''0'' @ usc3_end))) ''POW'' (Some (IntVal 50))
     = (Returns (Bytes (''0'' @ usc3_end)),
        client_on \<lparr>written = [''POW '' @ usc3_trm], incoming = []\<rparr>)
   \<and> map_of comm_codes (Str ''0'') = Some ''Success''"
  by code_simp

text \<open>
  Claim C3. The claim: when no enumerated device passes the filter, discovery fails with
  NotFound, connecting returns DeviceNotFound and no port is opened. In the code
  \<^verbatim>\<open>port_list[-1]\<close> raises \<^verbatim>\<open>IndexError\<close> on the empty list, and \<^verbatim>\<open>connect\<close> lets it
  pass: on a host without ports the call raises instead of returning \<^verbatim>\<open>None\<close>, prints
  nothing and opens nothing.
\<close>

theorem connect_without_device_raises:
  "port_seek (unconnected None) empty_host = Inl IndexError
   \<and> connect (unconnected None) empty_host = (Raises IndexError, unconnected None, empty_host)
   \<and> opened empty_host = [] \<and> printed empty_host = []"
  by (simp add: connect_def port_seek_def unconnected_def
      empty_host_def)

text \<open>
  Claim C4. The claim: when the device answers the home-position query with
  \<^verbatim>\<open>10 20 30\<close> and LF, the client returns the list \<open>[10, 20, 30]\<close>. The code splits the
  returned byte string with a text separator, which raises \<^verbatim>\<open>TypeError\<close>.
\<close>

theorem home_position_reply_raises:
  "get_home_position (client_on (fresh_port (''10 20 30'' @ usc3_end)))
     = (Raises TypeError, client_on \<lparr>written = [''HP'' @ usc3_trm], incoming = []\<rparr>)"
  by code_simp

text \<open>
  Claim C5. Discovery returns a port exactly when the filtered list is not empty, and
  then it is the port of the last element of the filtered list in enumeration order;
  that element is one of the enumerated ports, its serial number equals the client's
  serial number when the client has one, and its vendor id is \<open>0x2341\<close> otherwise.
\<close>

theorem port_seek_last_match:
  "(port_seek self h = Inr p) =
     (spec_filtered self h \<noteq> [] \<and> p = device (last (spec_filtered self h)))
   \<and> (port_seek self h = Inr p \<longrightarrow>
        last (spec_filtered self h) \<in> set (comports h)
        \<and> (case serial_number self of
             None \<Rightarrow> vid (last (spec_filtered self h)) = Some 0x2341
           | Some sn \<Rightarrow> info_serial_number (last (spec_filtered self h)) = Some sn))"
proof -
  let ?ms = "spec_filtered self h"
  have iff: "(port_seek self h = Inr p) = (?ms \<noteq> [] \<and> p = device (last ?ms))"
    by (auto simp: port_seek_filtered)
  have "last ?ms \<in> set (comports h) \<and> spec_matches self (last ?ms)" if "?ms \<noteq> []"
  proof -
    from that have "last ?ms \<in> set ?ms" by (rule last_in_set)
    then show ?thesis by (simp add: spec_filtered_def)
  qed
  with iff show ?thesis by (simp add: spec_matches_def)
qed

theorem port_seek_last_match_witness:
  "port_seek (unconnected (Some ''A1'')) three_port_host = Inr ''COM5''
   \<and> map device (spec_filtered (unconnected (Some ''A1'')) three_port_host) = [''COM3'', ''COM5'']
   \<and> info_serial_number (last (spec_filtered (unconnected (Some ''A1'')) three_port_host))
       = Some ''A1''
   \<and> port_seek (unconnected None) three_port_host = Inr ''COM4''"
proof -
  have a: "port_seek (unconnected (Some ''A1'')) three_port_host = Inr ''COM5''"
    by (simp add: port_seek_def unconnected_def
        three_port_host_def)
  have b: "port_seek (unconnected None) three_port_host = Inr ''COM4''"
    by (simp add: port_seek_def unconnected_def
        three_port_host_def)
  have c: "map device (spec_filtered (unconnected (Some ''A1'')) three_port_host)
             = [''COM3'', ''COM5'']"
    by (simp add: spec_filtered_def spec_matches_def unconnected_def three_port_host_def)
  from port_seek_last_match[of "unconnected (Some ''A1'')" three_port_host "''COM5''"] a
  have "info_serial_number (last (spec_filtered (unconnected (Some ''A1'')) three_port_host))
          = Some ''A1''"
    by (simp add: unconnected_def)
  with a b c show ?thesis by simp
qed

text \<open>
  Claim C6. For every duplicate-free list \<open>S\<close> of pins between 1 and 22, the mask that
  \<^verbatim>\<open>set_pulse\<close> computes is the integer sum of \<open>2 ^ (p - 1)\<close> over the pins \<open>p\<close> of
  \<open>S\<close>, whatever the arithmetic of floats, and this mask is the parameter of the
  \<^verbatim>\<open>LPJ\<close> command.
\<close>

theorem output_mask_sum:
  assumes "distinct S" and "\<forall>p\<in>set S. 1 \<le> p \<and> p \<le> 22"
  shows "output_mask fl S = Inr (PyInt (\<Sum>p\<in>set S. 2 ^ nat (p - 1)))
       \<and> set_pulse fl self S w
           = execute_command self ''LPJ'' (Some (IntVal (\<Sum>p\<in>set S. 2 ^ nat (p - 1))))"
proof -
  from assms(2) have "list_all (\<lambda>p. 1 \<le> p) S" by (simp add: list_all_iff)
  then have "output_mask fl S = Inr (PyInt (sum_list (map (\<lambda>p. 2 ^ nat (p - 1)) S)))"
    by (rule output_mask_sum_list)
  with assms(1) have "output_mask fl S = Inr (PyInt (\<Sum>p\<in>set S. 2 ^ nat (p - 1)))"
    by (simp add: sum_list_distinct_conv_sum_set)
  then show ?thesis by (simp add: set_pulse_def)
qed

theorem output_mask_sum_witness:
  "distinct [1, 3 :: int] \<and> set [1, 3 :: int] \<subseteq> {1..22}
   \<and> (\<forall>fl :: 'f float_ops.
          output_mask fl [1, 3] = Inr (PyInt 5)
          \<and> set_pulse fl (client_on (fresh_port [])) [1, 3] 100
              = execute_command (client_on (fresh_port [])) ''LPJ'' (Some (IntVal 5)))"
proof -
  have "output_mask fl [1, 3] = Inr (PyInt 5)
      \<and> set_pulse fl (client_on (fresh_port [])) [1, 3] 100
          = execute_command (client_on (fresh_port [])) ''LPJ'' (Some (IntVal 5))"
    for fl :: "'f float_ops"
    using output_mask_sum[of "[1, 3]" fl "client_on (fresh_port [])" 100] by simp
  then have "\<forall>fl :: 'f float_ops.
      output_mask fl [1, 3] = Inr (PyInt 5)
      \<and> set_pulse fl (client_on (fresh_port [])) [1, 3] 100
          = execute_command (client_on (fresh_port [])) ''LPJ'' (Some (IntVal 5))"
    by blast
  then show ?thesis by simp
qed

text \<open>
  Claim C7. The claim: for every input pin \<open>p\<close> from 2 to 15 and trigger mode \<open>t\<close> of
  \<open>0x00\<close> and \<open>0x10\<close>, the word that the laser-disable setter encodes is \<open>p + t\<close>;
  pin 6 with mode \<open>0x10\<close> gives 22. The code computes \<open>p + t\<close> and hands it to
  \<^verbatim>\<open>_execute_command\<close> as a scalar, where the slice \<^verbatim>\<open>str(val)[1:-1]\<close> removes it:
  \<^verbatim>\<open>set_laser_disable_flag(6, 0x10)\<close> writes \<^verbatim>\<open>FLAGS\<close>, a space and CRLF, not
  \<^verbatim>\<open>FLAGS 22\<close> and CRLF, and so does the call with pin 2 and mode \<open>0x00\<close>. The frame
  does not tell one word from another.
\<close>

theorem disable_flag_frame_loses_word:
  "to_write ''FLAGS'' (Some (IntVal (6 + 0x10))) = Inr (''FLAGS '' @ usc3_trm)
   \<and> to_write ''FLAGS'' (Some (IntVal (6 + 0x10))) \<noteq> Inr (''FLAGS 22'' @ usc3_trm)
   \<and> transmitted (snd (set_laser_disable_flag (client_on (fresh_port (''0'' @ usc3_end))) 6 0x10))
       = [''FLAGS '' @ usc3_trm]
   \<and> transmitted (snd (set_laser_disable_flag (client_on (fresh_port (''0'' @ usc3_end))) 2 0x00))
       = [''FLAGS '' @ usc3_trm]"
  by code_simp

text \<open>
  Claim C8 as written covers every sequence of integers, and fails twice. For the empty
  sequence the payload is empty, splitting it gives one empty field, and parsing that
  field raises. For a sequence with an element of more than \<open>int_max_str_digits\<close>
  digits \<^verbatim>\<open>str\<close> raises and there is no frame.
\<close>

theorem list_frame_fails_on_empty_or_long:
  "to_write ''HP'' (Some (ListVal [])) = Inr (''HP '' @ usc3_trm)
   \<and> frame_payload ''HP'' (''HP '' @ usc3_trm) = []
   \<and> py_ints (split_sp (frame_payload ''HP'' (''HP '' @ usc3_trm))) = Inl ValueError
   \<and> py_ints (split_sp (frame_payload ''HP'' (''HP '' @ usc3_trm))) \<noteq> Inr []
   \<and> to_write ''HP'' (Some (ListVal [10 ^ int_max_str_digits])) = Inl ValueError"
proof -
  have e: "to_write ''HP'' (Some (ListVal [])) = Inr (''HP '' @ usc3_trm)
      \<and> frame_payload ''HP'' (''HP '' @ usc3_trm) = []
      \<and> py_ints (split_sp (frame_payload ''HP'' (''HP '' @ usc3_trm))) = Inl ValueError
      \<and> py_ints (split_sp (frame_payload ''HP'' (''HP '' @ usc3_trm))) \<noteq> Inr []"
    by code_simp
  have l: "to_write ''HP'' (Some (ListVal [10 ^ int_max_str_digits])) = Inl ValueError"
    by (rule to_write_list_too_long)
  from e l show ?thesis by blast
qed

text \<open>
  Claim C8, amended. For every sequence \<open>v\<close> that is not empty and whose elements are
  below \<open>10 ^ int_max_str_digits\<close> in magnitude: the frame is the opcode, a space, the
  decimal texts of the elements joined by single spaces, and CRLF; the frame has no
  bracket or comma that the opcode does not have; and splitting the payload at spaces
  and parsing each field as an integer gives \<open>v\<close> back.
\<close>

theorem list_frame_roundtrip:
  assumes "v \<noteq> []" and "\<forall>x\<in>set v. \<bar>x\<bar> < 10 ^ int_max_str_digits"
  shows "to_write data (Some (ListVal v))
           = Inr (data @ '' '' @ py_join '' '' (map decimal v) @ usc3_trm)
       \<and> set (data @ '' '' @ py_join '' '' (map decimal v) @ usc3_trm)
             \<inter> {CHR ''['', CHR '']'', CHR '',''}
           = set data \<inter> {CHR ''['', CHR '']'', CHR '',''}
       \<and> py_ints (split_sp (frame_payload data
             (data @ '' '' @ py_join '' '' (map decimal v) @ usc3_trm))) = Inr v"
proof -
  let ?b = "py_join '' '' (map decimal v)"
  let ?frame = "data @ '' '' @ ?b @ usc3_trm"
  from assms(2) have "\<forall>x\<in>set v. within_digit_limit x"
    by (simp only: within_digit_limit_iff)
  then have lim: "list_all within_digit_limit v"
    by (simp only: list_all_iff)
  have p: "list_all plain (map decimal v)"
    by (simp add: list_all_iff plain_decimal)
  have w: "to_write data (Some (ListVal v)) = Inr ?frame"
    using to_write_list[OF lim, of data] by (simp add: usc3_dlm_def)
  have b: "set ?b \<inter> {CHR ''['', CHR '']'', CHR '',''} = {}"
    using join_chars[OF p] by auto
  have s: "set ?frame \<inter> {CHR ''['', CHR '']'', CHR '',''}
             = set data \<inter> {CHR ''['', CHR '']'', CHR '',''}"
    using b by (auto simp: usc3_trm_def)
  have f: "frame_payload data ?frame = ?b"
    using frame_payload_frame[of data ?b] by (simp add: usc3_dlm_def)
  have r: "py_ints (split_sp (frame_payload data ?frame)) = Inr v"
  proof -
    from assms(1) have ne: "map decimal v \<noteq> []" by simp
    have "split_sp ?b = map decimal v" by (rule split_sp_join[OF p ne])
    with f show ?thesis by (simp add: py_ints_decimal[OF lim])
  qed
  show ?thesis by (rule conjI[OF w conjI[OF s r]])
qed

theorem list_frame_roundtrip_witness:
  "[10, - 20, 30] \<noteq> ([] :: int list)
   \<and> list_all within_digit_limit [10, - 20, 30]
   \<and> to_write ''HP'' (Some (ListVal [10, - 20, 30])) = Inr (''HP 10 -20 30'' @ usc3_trm)
   \<and> py_ints (split_sp (frame_payload ''HP'' (''HP 10 -20 30'' @ usc3_trm)))
       = Inr [10, - 20, 30]"
proof -
  have n: "[10, - 20, 30] \<noteq> ([] :: int list)" by simp
  have l: "list_all within_digit_limit [10, - 20, 30]"
    by (simp add: within_digit_limit_def decimal_nat.simps int_max_str_digits_def)
  then have "\<forall>x\<in>set [10, - 20, 30]. within_digit_limit x"
    by (simp only: list_all_iff)
  then have h: "\<forall>x\<in>set [10, - 20, 30 :: int]. \<bar>x\<bar> < 10 ^ int_max_str_digits"
    by (simp only: within_digit_limit_iff)
  have d: "map decimal [10, - 20, 30] = [''10'', ''-20'', ''30'']"
    by (simp add: decimal_def decimal_nat.simps)
  from list_frame_roundtrip[OF n h, of "''HP''"] l show ?thesis
    by (simp only: d) simp
qed

text \<open>
  Claim C9. \<^verbatim>\<open>run\<close> and \<^verbatim>\<open>stop\<close> write the same bytes: both frames are \<^verbatim>\<open>M\<close>, a
  space and CRLF, because the slice removes the one digit of the parameter; the two
  calls have the same outcome and leave the same state.
\<close>

theorem run_stop_same_frame:
  "to_write ''M'' (Some (IntVal 1)) = Inr (''M '' @ usc3_trm)
   \<and> to_write ''M'' (Some (IntVal 0)) = Inr (''M '' @ usc3_trm)
   \<and> run self = stop self
   \<and> transmitted (snd (run (self\<lparr>serial := Some ser\<rparr>))) = written ser @ [''M '' @ usc3_trm]
   \<and> transmitted (snd (stop (self\<lparr>serial := Some ser\<rparr>))) = written ser @ [''M '' @ usc3_trm]"
proof -
  have one: "to_write ''M'' (Some (IntVal 1)) = Inr (''M '' @ usc3_trm)" by code_simp
  have zero: "to_write ''M'' (Some (IntVal 0)) = Inr (''M '' @ usc3_trm)" by code_simp
  have same: "run self = stop self"
    by (simp add: run_def stop_def execute_command_def one zero)
  have r: "transmitted (snd (run (self\<lparr>serial := Some ser\<rparr>))) = written ser @ [''M '' @ usc3_trm]"
    unfolding run_def by (rule execute_command_transmitted[OF one]) simp
  have s: "transmitted (snd (stop (self\<lparr>serial := Some ser\<rparr>))) = written ser @ [''M '' @ usc3_trm]"
    unfolding stop_def by (rule execute_command_transmitted[OF zero]) simp
  from one zero same r s show ?thesis by blast
qed

text \<open>
  Claim C10. What \<^verbatim>\<open>set_pulse\<close> does depends on the pin list only: for every pin list,
  with an integer or a float mask, and every two pulse widths the two calls have the
  same outcome, leave the same state and have written the same bytes.
\<close>

theorem set_pulse_ignores_pulse_width:
  "set_pulse fl self output_list w1 = set_pulse fl self output_list w2
   \<and> transmitted (snd (set_pulse fl self output_list w1))
       = transmitted (snd (set_pulse fl self output_list w2))"
  by (simp add: set_pulse_def)

end
